theory Spec2Isabelle
  imports Complex_Main
begin

section \<open>Tensors, errors and the framework's primitives\<close>

text \<open>
  The network of \<^verbatim>\<open>qa_memnet.py\<close> is modelled on one example of a batch at a time, over
  the real numbers: a feature vector is a list of reals, a sequence tensor (time steps by
  features) is a list of feature vectors. Every layer of the network but batch
  normalisation and dropout acts on each example independently; those two are taken as
  arbitrary functions (see \<open>dense_comb\<close>). Rounding of floating-point arithmetic is not
  modelled.

  The framework checks shapes when it makes the graph and when it is fed: a built model
  receives only token sequences of the configured length, its elementwise products pair
  tensors of one shape, and no model is built on sequences without a time step, whose last
  step cannot be sliced. The functions below return an error where the source reads the
  last step of an empty sequence, and the theorems about the network are stated for
  sequences with at least one token.
\<close>

type_synonym vec = "real list"
type_synonym seq = "real list list"

datatype error =
    ValueError          \<comment> \<open>a slice \<^verbatim>\<open>[:, -1, :]\<close> or \<^verbatim>\<open>[:, 0, :]\<close> of a tensor with no time step\<close>
  | UnboundLocalError   \<comment> \<open>a local variable read before any assignment\<close>
  | TypeError           \<comment> \<open>unpacking a single tensor into four names\<close>
  | AttributeError      \<comment> \<open>an attribute the instance does not have\<close>
  | OSError             \<comment> \<open>a weight file that does not exist\<close>

definition relu :: "real \<Rightarrow> real" where
  "relu x = max x 0"

definition sigmoid :: "real \<Rightarrow> real" where
  "sigmoid x = 1 / (1 + exp (- x))"

definition dot :: "vec \<Rightarrow> vec \<Rightarrow> real" where
  \<comment> \<open>the sum over the last axis of the elementwise product of two tensors of one shape\<close>
  "dot x y = sum_list (map2 (*) x y)"

definition sumsq :: "vec \<Rightarrow> real" where
  "sumsq x = (\<Sum>v\<leftarrow>x. v\<^sup>2)"

definition epsilon :: real where
  \<comment> \<open>\<^verbatim>\<open>K.l2_normalize\<close> of the TensorFlow backend is \<^verbatim>\<open>tf.nn.l2_normalize\<close>, whose
      \<^verbatim>\<open>epsilon\<close> defaults to \<^verbatim>\<open>1e-12\<close>\<close>
  "epsilon = 1 / 10 ^ 12"

definition clamped_norm :: "vec \<Rightarrow> real" where
  \<comment> \<open>\<^verbatim>\<open>sqrt(max(sum(x ** 2), epsilon))\<close>\<close>
  "clamped_norm x = sqrt (max (sumsq x) epsilon)"

definition l2_normalize :: "vec \<Rightarrow> vec" where
  \<comment> \<open>\<^verbatim>\<open>x / sqrt(max(sum(x ** 2), epsilon))\<close> along the last axis\<close>
  "l2_normalize x = map (\<lambda>v. v / clamped_norm x) x"

definition scale :: "real \<Rightarrow> vec \<Rightarrow> vec" where
  \<comment> \<open>the product \<^verbatim>\<open>a * x\<close> of a scalar and a tensor\<close>
  "scale a x = map ((*) a) x"

section \<open>The helper methods of \<^verbatim>\<open>QAMemnet\<close>\<close>

definition last_timestep :: "seq \<Rightarrow> error + vec" where
  \<comment> \<open>\<^verbatim>\<open>vests[:, -1, :]\<close>\<close>
  "last_timestep vests = (if vests = [] then Inl ValueError else Inr (last vests))"

definition int_shape_last :: "seq \<Rightarrow> nat" where
  \<comment> \<open>\<^verbatim>\<open>K.int_shape(vests)[-1]\<close>, the width of the feature axis, read off the first time
      step of a tensor that has one\<close>
  "int_shape_last vests = length (hd vests)"

definition last_timestep_rev :: "seq \<Rightarrow> error + vec" where
  \<comment> \<open>\<^verbatim>\<open>rdim = int(K.int_shape(vests)[-1] / 2)\<close>;
      \<^verbatim>\<open>concatenate([vests[:, -1, :rdim], vests[:, 0, rdim:]], axis=-1)\<close>\<close>
  "last_timestep_rev vests =
     (if vests = [] then Inl ValueError
      else let rdim = int_shape_last vests div 2
           in Inr (take rdim (last vests) @ drop rdim (hd vests)))"

definition cosine_similarity :: "vec \<Rightarrow> vec \<Rightarrow> vec" where
  \<comment> \<open>\<^verbatim>\<open>x, y = vests\<close>; both are normalised, and \<^verbatim>\<open>K.sum(x * y, axis=-1, keepdims=True)\<close>
      keeps the summed axis with length one\<close>
  "cosine_similarity x y =
     (let x' = l2_normalize x; y' = l2_normalize y in [dot x' y'])"

definition margin :: real where
  "margin = 1"

definition loss_term :: "real \<Rightarrow> real \<Rightarrow> real" where
  \<comment> \<open>the expression under \<^verbatim>\<open>K.mean\<close> in \<^verbatim>\<open>contrastive_loss\<close>, for one example\<close>
  "loss_term y_true y_pred =
     (1 - y_true) * y_pred\<^sup>2 + y_true * (max (margin - y_pred) 0)\<^sup>2"

definition K_mean :: "real list \<Rightarrow> real" where
  \<comment> \<open>the mean over all elements; of no element it is not a number in the framework, and
      \<open>0\<close> here\<close>
  "K_mean xs = sum_list xs / real (length xs)"

definition contrastive_loss :: "real list \<Rightarrow> real list \<Rightarrow> real" where
  "contrastive_loss y_true y_pred = K_mean (map2 loss_term y_true y_pred)"


section \<open>Layers of the framework\<close>

text \<open>
  The layers come from Keras. A dense layer is given by its weights; the recurrent cells,
  batch normalisation and dropout are parameters of the model, so that every theorem
  holds whatever they compute.
\<close>

record dense_weights =
  kernel_cols :: "vec list"   \<comment> \<open>the kernel, one column (the input weights of a unit) per unit\<close>
  bias_vec :: vec

definition Dense :: "nat \<Rightarrow> (real \<Rightarrow> real) \<Rightarrow> dense_weights \<Rightarrow> vec \<Rightarrow> vec" where
  \<comment> \<open>\<^verbatim>\<open>Dense(units, activation)\<close>: \<^verbatim>\<open>activation(dot(x, kernel) + bias)\<close>, one value per unit\<close>
  "Dense units activation w x =
     map (\<lambda>j. activation (dot x (kernel_cols w ! j) + bias_vec w ! j)) [0..<units]"

definition LeakyReLU :: "real \<Rightarrow> real" where
  \<comment> \<open>with the default slope \<^verbatim>\<open>alpha=0.3\<close>\<close>
  "LeakyReLU x = (if 0 \<le> x then x else 3 / 10 * x)"

definition softmax :: "real list \<Rightarrow> real list" where
  "softmax ws = map (\<lambda>w. exp w / (\<Sum>u\<leftarrow>ws. exp u)) ws"

definition pairwise_mul :: "seq \<Rightarrow> seq \<Rightarrow> seq" where
  \<comment> \<open>\<^verbatim>\<open>x * y\<close> where \<^verbatim>\<open>y\<close> has one feature per time step, broadcast over the features of
      \<^verbatim>\<open>x\<close>: the only shapes \<^verbatim>\<open>build_embedder\<close> multiplies\<close>
  "pairwise_mul x y = map2 (\<lambda>u w. map (\<lambda>a. a * hd w) u) x y"

record rnn_cell =
  initial :: vec                      \<comment> \<open>the state before the first time step\<close>
  advance :: "vec \<Rightarrow> vec \<Rightarrow> vec"   \<comment> \<open>the state after one more input\<close>
  emit :: "vec \<Rightarrow> vec"           \<comment> \<open>the features the cell shows for a state\<close>

fun run_cell :: "rnn_cell \<Rightarrow> vec \<Rightarrow> seq \<Rightarrow> seq" where
  "run_cell c s [] = []"
| "run_cell c s (x # xs) = (let s' = advance c s x in emit c s' # run_cell c s' xs)"

definition recurrent :: "rnn_cell \<Rightarrow> seq \<Rightarrow> seq" where
  \<comment> \<open>a recurrent layer with \<^verbatim>\<open>return_sequences=True\<close>: one output per time step\<close>
  "recurrent c xs = run_cell c (initial c) xs"

definition Bidirectional :: "rnn_cell \<Rightarrow> rnn_cell \<Rightarrow> seq \<Rightarrow> seq" where
  \<comment> \<open>the wrapper with its default \<^verbatim>\<open>merge_mode='concat'\<close>: the backward copy reads the
      reversed sequence, its outputs are put back in time order, and each time step
      carries the forward features followed by the backward ones\<close>
  "Bidirectional fw bw xs = map2 (@) (recurrent fw xs) (rev (recurrent bw (rev xs)))"

datatype cell_class = CuDNNLSTM | LSTM | CuDNNGRU | GRU

type_synonym cell_factory = "cell_class \<Rightarrow> nat \<Rightarrow> real \<Rightarrow> real \<Rightarrow> nat \<Rightarrow> bool \<Rightarrow> rnn_cell"
  \<comment> \<open>the cell made by \<^verbatim>\<open>Cell(units, dropout, recurrent_dropout)\<close> in round \<^verbatim>\<open>li\<close> of the
      loop; the flag tells the backward copy of a bidirectional layer from the forward one\<close>

definition GlobalAveragePooling1D :: "seq \<Rightarrow> vec" where
  "GlobalAveragePooling1D xs =
     map (\<lambda>j. (\<Sum>v\<leftarrow>xs. v ! j) / real (length xs)) [0..<int_shape_last xs]"

definition GlobalMaxPooling1D :: "seq \<Rightarrow> vec" where
  "GlobalMaxPooling1D xs =
     map (\<lambda>j. fold max (map (\<lambda>v. v ! j) (tl xs)) (hd xs ! j)) [0..<int_shape_last xs]"

section \<open>The embedder and the sequence encoder\<close>

record embedder_weights =
  embedding :: "nat \<Rightarrow> vec"   \<comment> \<open>the rows of the layer named \<^verbatim>\<open>embedding\<close>\<close>
  trf :: dense_weights         \<comment> \<open>\<^verbatim>\<open>Dense(emb_dim)\<close>, used when \<^verbatim>\<open>transformed\<close>\<close>
  wwt :: "nat \<Rightarrow> real"        \<comment> \<open>the one-column table of token weights, used when \<^verbatim>\<open>weighted\<close>\<close>

definition embedding_trainable :: "nat option \<Rightarrow> bool" where
  \<comment> \<open>the table is frozen when \<^verbatim>\<open>voc_siz\<close> is given\<close>
  "embedding_trainable voc_siz = (voc_siz = None)"

definition build_embedder ::
  "embedder_weights \<Rightarrow> nat \<Rightarrow> nat option \<Rightarrow> bool \<Rightarrow> bool \<Rightarrow> nat \<Rightarrow> nat list \<Rightarrow> seq" where
  \<comment> \<open>the model returned, applied to a token sequence \<^verbatim>\<open>inp\<close>. The arguments after the
      weights: \<^verbatim>\<open>seqlen\<close>, \<^verbatim>\<open>voc_siz\<close>, \<^verbatim>\<open>weighted\<close>, \<^verbatim>\<open>transformed\<close>, \<^verbatim>\<open>emb_dim\<close>; \<^verbatim>\<open>seqlen\<close> is
      the length the framework asks of \<^verbatim>\<open>inp\<close>, and \<^verbatim>\<open>voc_siz\<close> decides only the size of the
      table and whether it is trained\<close>
  "build_embedder w seqlen voc_siz weighted transformed emb_dim inp =
     (let enc = map (embedding w) inp;
          act = (if transformed
                 then map (\<lambda>v. map LeakyReLU (Dense emb_dim (\<lambda>z. z) (trf w) v)) enc
                 else enc)
      in if weighted
         then (let wac = map (\<lambda>a. [a]) (softmax (map (wwt w) inp))
               in pairwise_mul act wac)
         else act)"

datatype encoder_output =
    Tensors "vec list"   \<comment> \<open>a list of output tensors\<close>
  | Tensor vec           \<comment> \<open>one output vector\<close>
  | Sequences seq        \<comment> \<open>one output sequence\<close>

type_synonym last_step = "seq \<Rightarrow> error + vec"

definition rnn_layer ::
  "cell_factory \<Rightarrow> cell_class \<Rightarrow> bool \<Rightarrow> bool \<Rightarrow> nat \<Rightarrow> real \<Rightarrow> real \<Rightarrow> nat \<Rightarrow>
   (seq \<Rightarrow> seq) \<times> last_step option \<Rightarrow> (seq \<Rightarrow> seq) \<times> last_step option" where
  \<comment> \<open>one round of the loop \<^verbatim>\<open>for li in range(layers)\<close>, on the pair of \<^verbatim>\<open>rnn\<close> (as a
      function of the input) and \<^verbatim>\<open>get_last_step\<close> (\<open>None\<close> while it is unbound)\<close>
  "rnn_layer mk Cell bidirectional cudnn lstm_dim dp rdp li st =
     (let rnn = fst st
      in if bidirectional
         then (Bidirectional (mk Cell lstm_dim 0 0 li False) (mk Cell lstm_dim 0 0 li True) \<circ> rnn,
               Some last_timestep_rev)
         else ((if cudnn then recurrent (mk Cell lstm_dim 0 0 li False) \<circ> rnn
                else recurrent (mk Cell lstm_dim dp rdp li False) \<circ> rnn),
               Some last_timestep))"

definition rnn_stack ::
  "cell_factory \<Rightarrow> bool \<Rightarrow> nat \<Rightarrow> real \<Rightarrow> real \<Rightarrow> int \<Rightarrow> bool \<Rightarrow> bool \<Rightarrow>
   (seq \<Rightarrow> seq) \<times> last_step option" where
  \<comment> \<open>the choice of \<^verbatim>\<open>Cell\<close> and the whole loop, from \<^verbatim>\<open>rnn = inp\<close> with \<^verbatim>\<open>get_last_step\<close>
      unbound; \<^verbatim>\<open>range(layers)\<close> is empty when \<^verbatim>\<open>layers\<close> is not positive\<close>
  "rnn_stack mk bidirectional lstm_dim rdp dp layers lstm cudnn =
     (let Cell = (if lstm then (if cudnn then CuDNNLSTM else LSTM)
                  else (if cudnn then CuDNNGRU else GRU))
      in fold (rnn_layer mk Cell bidirectional cudnn lstm_dim dp rdp) [0..<nat layers]
           (\<lambda>inp. inp, None))"

definition pooled :: "last_step \<Rightarrow> seq \<Rightarrow> error + encoder_output" where
  \<comment> \<open>the branch \<^verbatim>\<open>if not return_sequences and use_pool\<close>\<close>
  "pooled get_last_step rnn =
     (case get_last_step rnn of
        Inl e \<Rightarrow> Inl e
      | Inr last' \<Rightarrow>
          (let mean = GlobalAveragePooling1D rnn;
               maxp = GlobalMaxPooling1D rnn;
               sms = [last', mean, maxp]
           in Inr (Tensors ([concat sms] @ sms))))"

definition build_rnn_encoder ::
  "cell_factory \<Rightarrow> bool \<Rightarrow> bool \<Rightarrow> nat \<Rightarrow> real \<Rightarrow> real \<Rightarrow> int \<Rightarrow> bool \<Rightarrow> bool \<Rightarrow> bool \<Rightarrow>
   error + (seq \<Rightarrow> error + encoder_output)" where
  \<comment> \<open>the arguments after the cells: \<^verbatim>\<open>return_sequences\<close>, \<^verbatim>\<open>bidirectional\<close>, \<^verbatim>\<open>lstm_dim\<close>,
      \<^verbatim>\<open>rdp\<close>, \<^verbatim>\<open>dp\<close>, \<^verbatim>\<open>layers\<close>, \<^verbatim>\<open>lstm\<close>, \<^verbatim>\<open>cudnn\<close>, \<^verbatim>\<open>use_pool\<close>. Building fails when
      \<^verbatim>\<open>get_last_step\<close> is read and no round of the loop has bound it; the model built
      fails on a sequence with no time step\<close>
  "build_rnn_encoder mk return_sequences bidirectional lstm_dim rdp dp layers lstm cudnn use_pool =
     (let st = rnn_stack mk bidirectional lstm_dim rdp dp layers lstm cudnn;
          rnn = fst st;
          get_last_step = snd st
      in if \<not> return_sequences \<and> use_pool then
           (case get_last_step of
              None \<Rightarrow> Inl UnboundLocalError
            | Some g \<Rightarrow> Inr (\<lambda>inp. pooled g (rnn inp)))
         else if \<not> return_sequences then
           (case get_last_step of
              None \<Rightarrow> Inl UnboundLocalError
            | Some g \<Rightarrow> Inr (\<lambda>inp. case g (rnn inp) of Inl e \<Rightarrow> Inl e | Inr v \<Rightarrow> Inr (Tensor v)))
         else Inr (\<lambda>inp. Inr (Sequences (rnn inp))))"

section \<open>The network\<close>

record params =
  voc_siz :: "nat option"
  emb_dim :: nat
  bdr :: bool
  pool :: bool
  cudnn :: bool
  dsn :: bool
  dsl :: int
  dsd :: nat
  dsp :: real
  edp :: real
  rdp :: real
  drp :: real
  lstm_dim :: nat
  seq_len :: nat
  layers :: int
  dlrs :: int

definition dense_dim :: "params \<Rightarrow> nat" where
  \<comment> \<open>\<^verbatim>\<open>self.dense_dim\<close>, as \<^verbatim>\<open>__init__\<close> computes it\<close>
  "dense_dim p =
     (let d = lstm_dim p;
          d = (if pool p then d * 3 else d);
          d = (if bdr p then d * 2 else d)
      in d)"

record weights =
  embedder_w :: embedder_weights
  cells :: cell_factory
  BatchNormalization :: "vec \<Rightarrow> vec"
  Dropout :: "real \<Rightarrow> vec \<Rightarrow> vec"
  dns1_w :: "nat \<Rightarrow> dense_weights"   \<comment> \<open>the dense layers of the merge model, in order\<close>
  fc1_w :: dense_weights
  relevance_w :: dense_weights
  build_deep_sim_net :: "(nat \<Rightarrow> int \<Rightarrow> real \<Rightarrow> vec \<Rightarrow> vec \<Rightarrow> vec) option"
    \<comment> \<open>a method this class does not define: \<open>None\<close> when no base class supplies it\<close>

definition dense_comb :: "weights \<Rightarrow> params \<Rightarrow> int \<Rightarrow> vec \<Rightarrow> vec \<Rightarrow> vec" where
  \<comment> \<open>the merge model \<^verbatim>\<open>dense_comb(layers)\<close> applied to \<^verbatim>\<open>[inp1, inp2]\<close>\<close>
  "dense_comb W p n inp1 inp2 =
     (let cnc1 = inp1 @ inp2;
          bnr1 = BatchNormalization W cnc1;
          drp1 = Dropout W (drp p) bnr1
      in fold (\<lambda>i dns1. Dense (dense_dim p) relu (dns1_w W i) dns1) [0..<nat n] drp1)"

definition encode :: "params \<Rightarrow> weights \<Rightarrow> error + (nat list \<Rightarrow> error + encoder_output)" where
  \<comment> \<open>\<^verbatim>\<open>self.embedder\<close> followed by \<^verbatim>\<open>encoder_ctx\<close>, the one pair of models applied to both
      inputs\<close>
  "encode p W =
     (case build_rnn_encoder (cells W) False (bdr p) (lstm_dim p) (rdp p) (edp p) (layers p)
             True (cudnn p) (pool p) of
        Inl e \<Rightarrow> Inl e
      | Inr encoder_ctx \<Rightarrow>
          Inr (\<lambda>inp. encoder_ctx (build_embedder (embedder_w W) (seq_len p) (voc_siz p) False False (emb_dim p) inp)))"

definition similarities ::
  "params \<Rightarrow> weights \<Rightarrow> encoder_output \<Rightarrow> encoder_output \<Rightarrow> error + vec" where
  \<comment> \<open>from the unpacking of the two encodings to \<^verbatim>\<open>sims = concatenate(sims)\<close>\<close>
  "similarities p W out_ctx out_rpl =
     (case (out_ctx, out_rpl) of
        (Tensors [enc_ctx, c1, c2, c3], Tensors [enc_rpl, r1, r2, r3]) \<Rightarrow>
          (let sims = [cosine_similarity enc_ctx enc_rpl,
                       cosine_similarity c1 r1,
                       cosine_similarity c1 r2,
                       cosine_similarity c1 r3,
                       cosine_similarity c2 r1,
                       cosine_similarity c2 r2,
                       cosine_similarity c2 r3,
                       cosine_similarity c3 r1,
                       cosine_similarity c3 r2,
                       cosine_similarity c3 r3];
               enc_ctx' = dense_comb W p (dlrs p) enc_ctx enc_rpl
           in if dsn p then
                (case build_deep_sim_net W of
                   None \<Rightarrow> Inl AttributeError
                 | Some net \<Rightarrow> Inr (concat sims))
              else Inr (concat (sims @ [cosine_similarity enc_ctx' enc_rpl])))
      | _ \<Rightarrow> Inl TypeError)"

definition similarity_vector :: "params \<Rightarrow> weights \<Rightarrow> nat list \<Rightarrow> nat list \<Rightarrow> error + vec" where
  \<comment> \<open>the tensor \<^verbatim>\<open>sims\<close> that enters the scoring head, for a context and a reply: both are
      embedded and encoded by the one pair of models, then compared\<close>
  "similarity_vector p W inp_ctx inp_rpl =
     (case encode p W of
        Inl e \<Rightarrow> Inl e
      | Inr enc \<Rightarrow>
          (case enc inp_ctx of
             Inl e \<Rightarrow> Inl e
           | Inr out_ctx \<Rightarrow>
               (case enc inp_rpl of
                  Inl e \<Rightarrow> Inl e
                | Inr out_rpl \<Rightarrow> similarities p W out_ctx out_rpl)))"

definition get_qa_memnet_model ::
  "params \<Rightarrow> weights \<Rightarrow> error + (nat list \<Rightarrow> nat list \<Rightarrow> error + vec)" where
  \<comment> \<open>the model of the two inputs \<^verbatim>\<open>inp_ctx\<close> and \<^verbatim>\<open>inp_reply\<close>. With pooling off the encoder
      has a single output, which cannot be unpacked into four names, and with \<^verbatim>\<open>dsn\<close> set
      the missing method is called: no model is built then\<close>
  "get_qa_memnet_model p W =
     (case encode p W of
        Inl e \<Rightarrow> Inl e
      | Inr enc \<Rightarrow>
          if \<not> pool p then Inl TypeError
          else if dsn p \<and> build_deep_sim_net W = None then Inl AttributeError
          else Inr (\<lambda>inp_ctx inp_rpl.
            case similarity_vector p W inp_ctx inp_rpl of
              Inl e \<Rightarrow> Inl e
            | Inr sims \<Rightarrow>
                (let fc1 = Dense 16 relu (fc1_w W) sims;
                     fc2 = Dense 1 sigmoid (relevance_w W) fc1
                 in Inr fc2)))"

section \<open>The object and its entry points\<close>

record memnet =
  config :: params
  nets :: "nat \<rightharpoonup> weights"       \<comment> \<open>the Keras models that exist, by address, with their weights\<close>
  model :: nat                      \<comment> \<open>\<^verbatim>\<open>self.model\<close>\<close>
  obj_model :: "nat option"         \<comment> \<open>\<^verbatim>\<open>self.obj_model\<close>: \<open>None\<close> while the attribute is not set\<close>
  files :: "string \<rightharpoonup> weights"   \<comment> \<open>the weight files on disk\<close>

definition QAMemnet_init :: "params \<Rightarrow> weights \<Rightarrow> error + memnet" where
  \<comment> \<open>\<^verbatim>\<open>__init__\<close> with the initial weights the framework draws: it assigns \<^verbatim>\<open>self.model\<close>
      and never \<^verbatim>\<open>self.obj_model\<close>, and it does not call the initialiser of the base class\<close>
  "QAMemnet_init p W0 =
     (case get_qa_memnet_model p W0 of
        Inl e \<Rightarrow> Inl e
      | Inr m \<Rightarrow> Inr \<lparr>config = p, nets = [0 \<mapsto> W0], model = 0, obj_model = None,
                       files = Map.empty\<rparr>)"

definition save :: "memnet \<Rightarrow> string \<Rightarrow> error + memnet" where
  \<comment> \<open>\<^verbatim>\<open>self.obj_model.save_weights(str(save_path))\<close>\<close>
  "save self save_path =
     (case obj_model self of
        None \<Rightarrow> Inl AttributeError
      | Some a \<Rightarrow>
          (case nets self a of
             None \<Rightarrow> Inl AttributeError
           | Some w \<Rightarrow> Inr (self\<lparr>files := (files self)(save_path \<mapsto> w)\<rparr>)))"

definition load :: "memnet \<Rightarrow> string \<Rightarrow> error + memnet" where
  \<comment> \<open>\<^verbatim>\<open>self.obj_model.load_weights(str(load_path))\<close>\<close>
  "load self load_path =
     (case obj_model self of
        None \<Rightarrow> Inl AttributeError
      | Some a \<Rightarrow>
          (case files self load_path of
             None \<Rightarrow> Inl OSError
           | Some w \<Rightarrow> Inr (self\<lparr>nets := (nets self)(a \<mapsto> w)\<rparr>)))"

definition collect :: "(error + 'a) list \<Rightarrow> error + 'a list" where
  \<comment> \<open>the results of a batch, or the first error\<close>
  "collect rs = foldr (\<lambda>r acc. case r of Inl e \<Rightarrow> Inl e
                              | Inr v \<Rightarrow> (case acc of Inl e \<Rightarrow> Inl e | Inr vs \<Rightarrow> Inr (v # vs)))
                  rs (Inr [])"

definition predict_score_on_batch :: "memnet \<Rightarrow> nat list list \<times> nat list list \<Rightarrow> error + vec list" where
  \<comment> \<open>\<^verbatim>\<open>self.model.predict_on_batch(x=batch)\<close>: one row of scores for each example of the
      batch of contexts and replies\<close>
  "predict_score_on_batch self batch =
     (case nets self (model self) of
        None \<Rightarrow> Inl AttributeError
      | Some W \<Rightarrow>
          (case get_qa_memnet_model (config self) W of
             Inl e \<Rightarrow> Inl e
           | Inr m \<Rightarrow> collect (map2 m (fst batch) (snd batch))))"

definition train_on_batch ::
  "(weights \<Rightarrow> nat list list \<times> nat list list \<Rightarrow> real list \<Rightarrow> weights) \<Rightarrow>
   memnet \<Rightarrow> nat list list \<times> nat list list \<Rightarrow> real list \<Rightarrow> error + memnet \<times> real" where
  \<comment> \<open>\<^verbatim>\<open>self.model.train_on_batch(x=list(batch), y=np.asarray(y))\<close>: one step of the optimiser
      (a parameter) on the weights of \<^verbatim>\<open>self.model\<close>, returning the loss of the batch (the
      accuracy the framework reports beside it is left out)\<close>
  "train_on_batch optimizer self batch y =
     (case nets self (model self) of
        None \<Rightarrow> Inl AttributeError
      | Some W \<Rightarrow>
          (case predict_score_on_batch self batch of
             Inl e \<Rightarrow> Inl e
           | Inr scores \<Rightarrow>
               Inr (self\<lparr>nets := (nets self)(model self \<mapsto> optimizer W batch y)\<rparr>,
                    contrastive_loss y (concat scores))))"

section \<open>A small instance\<close>

text \<open>
  A configuration with the flags of the defaults (bidirectional, pooled, two recurrent
  layers, one merge layer, no deep similarity network) and width one, with weights on
  which the definitions can be evaluated. Each cell shows on every unit the running sum of
  the first feature of its inputs, the embedding table maps every token to the one
  feature \<open>a\<close>, and the dense layers have zero weights.
\<close>

definition small_params :: params where
  "small_params =
     \<lparr>voc_siz = Some 4, emb_dim = 1, bdr = True, pool = True, cudnn = True, dsn = False, dsl = 2, dsd = 300,
      dsp = 3 / 10, edp = 0, rdp = 1 / 10, drp = 2 / 10, lstm_dim = 1, seq_len = 2,
      layers = 2, dlrs = 1\<rparr>"

definition sum_cell :: cell_factory where
  "sum_cell cls units dro rd li backward =
     \<lparr>initial = [0],
      advance = (\<lambda>s x. [hd s + hd x]),
      emit = (\<lambda>s. replicate units (hd s))\<rparr>"

definition zero_dense :: "nat \<Rightarrow> nat \<Rightarrow> dense_weights" where
  "zero_dense inputs units =
     \<lparr>kernel_cols = replicate units (replicate inputs 0), bias_vec = replicate units 0\<rparr>"

definition small_weights :: "real \<Rightarrow> weights" where
  "small_weights a =
     \<lparr>embedder_w = \<lparr>embedding = (\<lambda>tok. [a]), trf = zero_dense 1 1, wwt = (\<lambda>tok. 1)\<rparr>,
      cells = sum_cell,
      BatchNormalization = (\<lambda>v. v),
      Dropout = (\<lambda>rate v. v),
      dns1_w = (\<lambda>i. zero_dense 12 6),
      fc1_w = zero_dense 11 16,
      relevance_w = zero_dense 16 1,
      build_deep_sim_net = None\<rparr>"

section \<open>The contrastive loss\<close>








section \<open>Cosine similarity\<close>

lemma sumsq_Nil [simp]: "sumsq [] = 0"
  by (simp add: sumsq_def)

lemma sumsq_Cons [simp]: "sumsq (a # x) = a\<^sup>2 + sumsq x"
  by (simp add: sumsq_def)

lemma dot_Nil [simp]: "dot [] y = 0" "dot x [] = 0"
  by (simp_all add: dot_def)

lemma dot_Cons [simp]: "dot (a # x) (b # y) = a * b + dot x y"
  by (simp add: dot_def)

lemma sumsq_nonneg: "0 \<le> sumsq x"
  by (induction x) simp_all


lemma sumsq_scale: "sumsq (scale a x) = a\<^sup>2 * sumsq x"
  by (induction x) (simp_all add: scale_def power_mult_distrib distrib_left)

lemma dot_scale: "dot (scale a x) (scale b y) = a * b * dot x y"
  by (induction x y rule: list_induct2') (simp_all add: scale_def distrib_left)

lemma dot_divide: "dot (map (\<lambda>v. v / a) x) (map (\<lambda>v. v / b) y) = dot x y / (a * b)"
  by (induction x y rule: list_induct2') (simp_all add: add_divide_distrib)

text \<open>The inequality of Cauchy and Schwarz, one coordinate at a time.\<close>

lemma cauchy_schwarz_step:
  fixes a b S A B :: real
  assumes S: "S\<^sup>2 \<le> A * B" and A: "0 \<le> A" and B: "0 \<le> B"
  shows "(a * b + S)\<^sup>2 \<le> (a\<^sup>2 + A) * (b\<^sup>2 + B)"
proof -
  define u where "u = a\<^sup>2 * B"
  define v where "v = A * b\<^sup>2"
  have u: "0 \<le> u" and v: "0 \<le> v" using A B by (simp_all add: u_def v_def)
  have "(2 * a * b * S)\<^sup>2 = 4 * (a\<^sup>2 * b\<^sup>2) * S\<^sup>2"
    by (simp add: power2_eq_square)
  also have "\<dots> \<le> 4 * (a\<^sup>2 * b\<^sup>2) * (A * B)"
    using S by (intro mult_left_mono) simp_all
  also have "\<dots> = 4 * u * v" by (simp add: u_def v_def)
  also have "\<dots> \<le> (u + v)\<^sup>2"
    using zero_le_power2 [of "u - v"] by (simp add: power2_eq_square algebra_simps)
  finally have "2 * a * b * S \<le> u + v"
    using u v by (auto intro: power2_le_imp_le)
  then have "(a * b + S)\<^sup>2 \<le> a\<^sup>2 * b\<^sup>2 + (u + v) + A * B"
    using S by (simp add: power2_eq_square algebra_simps)
  also have "\<dots> = (a\<^sup>2 + A) * (b\<^sup>2 + B)"
    by (simp add: u_def v_def algebra_simps)
  finally show ?thesis .
qed

lemma cauchy_schwarz: "(dot x y)\<^sup>2 \<le> sumsq x * sumsq y"
proof (induction x y rule: list_induct2')
  case (4 a x b y)
  then show ?case
    using cauchy_schwarz_step [of "dot x y" "sumsq x" "sumsq y" a b] by (simp add: sumsq_nonneg)
qed (simp_all add: sumsq_nonneg)

lemma abs_dot_le: "\<bar>dot x y\<bar> \<le> sqrt (sumsq x) * sqrt (sumsq y)"
proof -
  have "\<bar>dot x y\<bar> = sqrt ((dot x y)\<^sup>2)" by simp
  also have "\<dots> \<le> sqrt (sumsq x * sumsq y)"
    using cauchy_schwarz by (simp del: real_sqrt_abs)
  finally show ?thesis by (simp add: real_sqrt_mult)
qed

lemma epsilon_pos: "0 < epsilon"
  by (simp add: epsilon_def)

lemma sqrt_epsilon: "sqrt epsilon = 1 / 10 ^ 6"
  by (simp add: epsilon_def real_sqrt_divide)

lemma clamped_norm_pos: "0 < clamped_norm x"
proof -
  have "epsilon \<le> max (sumsq x) epsilon" by simp
  with epsilon_pos have "0 < max (sumsq x) epsilon" by linarith
  then show ?thesis by (simp only: clamped_norm_def real_sqrt_gt_0_iff)
qed

lemma clamped_norm_large: "epsilon \<le> sumsq x \<Longrightarrow> clamped_norm x = sqrt (sumsq x)"
  by (simp add: clamped_norm_def max_def)

lemma clamped_norm_small: "sumsq x \<le> epsilon \<Longrightarrow> clamped_norm x = 1 / 10 ^ 6"
  by (simp add: clamped_norm_def max_def sqrt_epsilon)

lemma cosine_similarity_eq:
  "cosine_similarity x y = [dot x y / (clamped_norm x * clamped_norm y)]"
  by (simp add: cosine_similarity_def l2_normalize_def dot_divide)

lemma cosine_abs_le_1: "\<bar>dot x y / (clamped_norm x * clamped_norm y)\<bar> \<le> 1"
proof -
  have "sqrt (sumsq x) \<le> clamped_norm x" "sqrt (sumsq y) \<le> clamped_norm y"
    by (simp_all add: clamped_norm_def)
  then have "sqrt (sumsq x) * sqrt (sumsq y) \<le> clamped_norm x * clamped_norm y"
    by (intro mult_mono) (simp_all add: sumsq_nonneg less_imp_le [OF clamped_norm_pos])
  with abs_dot_le [of x y] have "\<bar>dot x y\<bar> \<le> clamped_norm x * clamped_norm y" by linarith
  moreover have "0 < clamped_norm x * clamped_norm y" using clamped_norm_pos by simp
  ultimately show ?thesis
    by (simp add: abs_mult divide_le_eq_1_pos abs_of_pos [OF clamped_norm_pos])
qed

lemma cosine_similarity_in_range:
  "\<exists>s. cosine_similarity x y = [s] \<and> - 1 \<le> s \<and> s \<le> 1"
proof -
  define s where "s = dot x y / (clamped_norm x * clamped_norm y)"
  have "\<bar>s\<bar> \<le> 1" unfolding s_def by (rule cosine_abs_le_1)
  then have "- 1 \<le> s \<and> s \<le> 1" by linarith
  moreover have "cosine_similarity x y = [s]" unfolding s_def by (rule cosine_similarity_eq)
  ultimately show ?thesis by blast
qed


text \<open>
  C6, as the code has it. \<^verbatim>\<open>K.l2_normalize\<close> divides by the square root of the larger of
  the sum of squares and \<open>epsilon\<close>. For vectors of one shape whose sums of squares are at
  least \<open>epsilon\<close>, \<open>cosine_similarity\<close> is the inner product over the product of the
  Euclidean norms, and it is unchanged by positive factors that keep both sums of squares
  at least \<open>epsilon\<close>. A vector whose sum of squares is at most \<open>epsilon\<close> is divided by
  the square root of \<open>epsilon\<close> instead of its norm.
\<close>

theorem cosine_similarity_normalized_dot:
  assumes "length x = length y" and "epsilon \<le> sumsq x" and "epsilon \<le> sumsq y"
  shows "cosine_similarity x y = [dot x y / (sqrt (sumsq x) * sqrt (sumsq y))]
         \<and> (0 < a \<and> 0 < b \<and> epsilon \<le> sumsq (scale a x) \<and> epsilon \<le> sumsq (scale b y)
              \<longrightarrow> cosine_similarity (scale a x) (scale b y) = cosine_similarity x y)
         \<and> (sumsq z \<le> epsilon \<longrightarrow> l2_normalize z = map (\<lambda>v. v / sqrt epsilon) z)"
proof -
  have below: "sumsq z \<le> epsilon \<longrightarrow> l2_normalize z = map (\<lambda>v. v / sqrt epsilon) z"
    by (simp add: l2_normalize_def clamped_norm_def max_def)
  have eq: "cosine_similarity x y = [dot x y / (sqrt (sumsq x) * sqrt (sumsq y))]"
    using assms by (simp add: cosine_similarity_eq clamped_norm_large)
  have "cosine_similarity (scale a x) (scale b y) = cosine_similarity x y"
    if "0 < a" "0 < b" "epsilon \<le> sumsq (scale a x)" "epsilon \<le> sumsq (scale b y)"
  proof -
    have "cosine_similarity (scale a x) (scale b y)
          = [a * b * dot x y / ((a * sqrt (sumsq x)) * (b * sqrt (sumsq y)))]"
      using that
      by (simp add: cosine_similarity_eq clamped_norm_large dot_scale)
         (simp add: sumsq_scale real_sqrt_mult)
    also have "\<dots> = [dot x y / (sqrt (sumsq x) * sqrt (sumsq y))]"
      using that by simp
    finally show ?thesis by (simp add: eq)
  qed
  with eq below show ?thesis by blast
qed

theorem cosine_similarity_normalized_dot_witness:
  "length [1, 0 :: real] = length [1, 1 :: real]
   \<and> epsilon \<le> sumsq [1, 0] \<and> epsilon \<le> sumsq [1, 1]
   \<and> (0 :: real) < 2 \<and> (0 :: real) < 3
   \<and> epsilon \<le> sumsq (scale 2 [1, 0]) \<and> epsilon \<le> sumsq (scale 3 [1, 1])
   \<and> cosine_similarity [1, 0] [1, 1] = [1 / sqrt 2]
   \<and> cosine_similarity (scale 2 [1, 0]) (scale 3 [1, 1]) = cosine_similarity [1, 0] [1, 1]"
proof -
  have h: "length [1, 0 :: real] = length [1, 1 :: real]" "epsilon \<le> sumsq [1, 0]"
    "epsilon \<le> sumsq [1, 1]" "epsilon \<le> sumsq (scale 2 [1, 0])"
    "epsilon \<le> sumsq (scale 3 [1, 1])"
    by (simp_all add: epsilon_def scale_def)
  from cosine_similarity_normalized_dot [OF h(1,2,3), where a = 2 and b = 3] h show ?thesis
    by simp
qed

text \<open>
  C6 as stated fails on nonzero vectors shorter than the square root of \<open>epsilon\<close>. The
  vector \<open>[1/10^7]\<close> is divided by \<open>1/10^6\<close>, not by its norm: against \<open>[1]\<close> the code returns
  \<open>1/10\<close> where the normalised inner product is 1, and after rescaling by \<open>10^7\<close> it
  returns 1.
\<close>

theorem cosine_similarity_small_counterexample:
  "cosine_similarity [1 / 10 ^ 7] [1] = [1 / 10]
   \<and> dot [1 / 10 ^ 7] [1] / (sqrt (sumsq [1 / 10 ^ 7]) * sqrt (sumsq [1])) = 1
   \<and> cosine_similarity (scale (10 ^ 7) [1 / 10 ^ 7]) (scale 1 [1]) = [1]"
proof -
  have small: "clamped_norm [1 / 10000000] = 1 / 1000000"
    using clamped_norm_small [of "[1 / 10000000]"] by (simp add: epsilon_def power2_eq_square)
  have one: "clamped_norm [1] = 1"
    by (simp add: clamped_norm_def epsilon_def max_def)
  have "sqrt (sumsq [1 / 10000000]) = 1 / 10000000"
    by (simp add: real_sqrt_divide)
  then show ?thesis
    by (simp add: cosine_similarity_eq small one scale_def)
qed

section \<open>The sequence encoder\<close>

lemma length_run_cell [simp]: "length (run_cell c s xs) = length xs"
  by (induction xs arbitrary: s) (simp_all add: Let_def)

lemma length_recurrent [simp]: "length (recurrent c xs) = length xs"
  by (simp add: recurrent_def)

lemma length_Bidirectional [simp]: "length (Bidirectional fw bw xs) = length xs"
  by (simp add: Bidirectional_def)


lemma rnn_layer_snd:
  "snd (rnn_layer mk Cell bidirectional cud units dro rd li st) =
     Some (if bidirectional then last_timestep_rev else last_timestep)"
  by (simp add: rnn_layer_def Let_def)


lemma fold_rnn_layer_snd:
  "ls \<noteq> [] \<Longrightarrow>
   snd (fold (rnn_layer mk Cell bidirectional cud units dro rd) ls st) =
     Some (if bidirectional then last_timestep_rev else last_timestep)"
proof (induction ls rule: rev_induct)
  case Nil
  then show ?case by simp
next
  case (snoc li ls)
  show ?case by (simp only: fold_append fold_simps comp_apply rnn_layer_snd)
qed


lemma rnn_stack_snd:
  "0 < n \<Longrightarrow>
   snd (rnn_stack mk bidirectional units rd dro n lstm cud) =
     Some (if bidirectional then last_timestep_rev else last_timestep)"
  unfolding rnn_stack_def Let_def by (rule fold_rnn_layer_snd) simp



lemma build_rnn_encoder_pool:
  assumes "0 < n"
  shows "build_rnn_encoder mk False bidirectional units rd dro n lstm cud True =
           Inr (\<lambda>inp. pooled (if bidirectional then last_timestep_rev else last_timestep)
                         (fst (rnn_stack mk bidirectional units rd dro n lstm cud) inp))"
  using rnn_stack_snd [OF assms, of mk bidirectional units rd dro lstm cud]
  by (simp add: build_rnn_encoder_def Let_def)





lemma run_cell_width:
  "(\<And>s. length (emit c s) = k) \<Longrightarrow> v \<in> set (run_cell c s0 xs) \<Longrightarrow> length v = k"
  by (induction xs arbitrary: s0) (auto simp: Let_def)

lemma recurrent_width:
  "(\<And>s. length (emit c s) = k) \<Longrightarrow> v \<in> set (recurrent c xs) \<Longrightarrow> length v = k"
  unfolding recurrent_def by (rule run_cell_width)

lemma hd_map2:
  "xs \<noteq> [] \<Longrightarrow> ys \<noteq> [] \<Longrightarrow> hd (map2 f xs ys) = f (hd xs) (hd ys)"
  by (cases xs; cases ys) simp_all

lemma last_map2:
  "length xs = length ys \<Longrightarrow> xs \<noteq> [] \<Longrightarrow> last (map2 f xs ys) = f (last xs) (last ys)"
  by (induction xs ys rule: list_induct2) (auto simp: last_ConsR)

lemma last_timestep_rev_Bidirectional:
  assumes xs: "xs \<noteq> []"
    and fw: "\<And>s. length (emit fw s) = k" and bw: "\<And>s. length (emit bw s) = k"
  shows "last_timestep_rev (Bidirectional fw bw xs) =
           Inr (last (recurrent fw xs) @ last (recurrent bw (rev xs)))"
proof -
  define F where "F = recurrent fw xs"
  define B where "B = recurrent bw (rev xs)"
  have len: "length F = length xs" "length B = length xs" by (simp_all add: F_def B_def)
  with xs have ne: "F \<noteq> []" "B \<noteq> []" by auto
  have wF: "length (hd F) = k" "length (last F) = k"
    using ne recurrent_width [OF fw, of _ xs] by (simp_all add: F_def)
  have wB: "length (hd B) = k" "length (last B) = k"
    using ne recurrent_width [OF bw, of _ "rev xs"] by (simp_all add: B_def)
  have out: "Bidirectional fw bw xs = map2 (@) F (rev B)"
    by (simp add: Bidirectional_def F_def B_def)
  have h: "hd (map2 (@) F (rev B)) = hd F @ last B"
    using ne by (simp add: hd_map2 hd_rev)
  have l: "last (map2 (@) F (rev B)) = last F @ hd B"
    using ne len by (simp add: last_map2 last_rev)
  from ne len have "map2 (@) F (rev B) \<noteq> []" by (cases F; cases "rev B") auto
  then show ?thesis
    unfolding out F_def [symmetric] B_def [symmetric]
    using wF wB by (simp add: last_timestep_rev_def int_shape_last_def h l Let_def)
qed

text \<open>
  C10. On a sequence tensor with a time step whose feature axis has width \<open>2 * d\<close>,
  \<open>last_timestep_rev\<close> returns the first \<open>d\<close> features of the final time step followed
  by the last \<open>d\<close> features of the first time step. A bidirectional encoder takes its last
  step with it. On the output of a bidirectional layer whose two cells show \<open>k\<close> features
  each, the result is the last output of the forward cell followed by the last output of
  the backward cell, which the layer holds at the first time step.
\<close>

theorem last_timestep_rev_halves:
  assumes "vests \<noteq> []" and "\<forall>v \<in> set vests. length v = 2 * d"
  shows "last_timestep_rev vests = Inr (take d (last vests) @ drop d (hd vests))
         \<and> length (take d (last vests)) = d
         \<and> length (drop d (hd vests)) = d
         \<and> (0 < n \<longrightarrow> snd (rnn_stack mk True units rd dro n lstm cud) = Some last_timestep_rev)
         \<and> (xs \<noteq> [] \<and> (\<forall>s. length (emit fw s) = k) \<and> (\<forall>s. length (emit bw s) = k)
              \<longrightarrow> last_timestep_rev (Bidirectional fw bw xs) =
                    Inr (last (recurrent fw xs) @ last (recurrent bw (rev xs))))"
proof -
  from assms have w: "length (hd vests) = 2 * d" "length (last vests) = 2 * d" by simp_all
  with assms(1) have "last_timestep_rev vests = Inr (take d (last vests) @ drop d (hd vests))"
    by (simp add: last_timestep_rev_def int_shape_last_def)
  moreover from w have "length (take d (last vests)) = d" "length (drop d (hd vests)) = d"
    by simp_all
  moreover have "0 < n \<longrightarrow> snd (rnn_stack mk True units rd dro n lstm cud) = Some last_timestep_rev"
    using rnn_stack_snd [of n mk True units rd dro lstm cud] by simp
  moreover have "xs \<noteq> [] \<and> (\<forall>s. length (emit fw s) = k) \<and> (\<forall>s. length (emit bw s) = k)
      \<longrightarrow> last_timestep_rev (Bidirectional fw bw xs) =
            Inr (last (recurrent fw xs) @ last (recurrent bw (rev xs)))"
    using last_timestep_rev_Bidirectional [of xs fw k bw] by blast
  ultimately show ?thesis by blast
qed

theorem last_timestep_rev_halves_witness:
  "[[1, 2, 3, 4], [5, 6, 7, 8 :: real]] \<noteq> []
   \<and> list_all (\<lambda>v. length v = 2 * 2) [[1, 2, 3, 4], [5, 6, 7, 8 :: real]]
   \<and> last_timestep_rev [[1, 2, 3, 4], [5, 6, 7, 8]] = Inr [5, 6, 3, 4]
   \<and> snd (rnn_stack sum_cell True 1 0 0 2 True True) = Some last_timestep_rev
   \<and> last_timestep_rev (Bidirectional (sum_cell LSTM 1 0 0 0 False) (sum_cell LSTM 1 0 0 0 True)
        [[1], [2]]) = Inr [3, 3]"
proof -
  have ne: "[[1, 2, 3, 4], [5, 6, 7, 8 :: real]] \<noteq> []" by simp
  have w: "\<forall>v \<in> set [[1, 2, 3, 4], [5, 6, 7, 8 :: real]]. length v = 2 * 2" by simp
  have r: "recurrent (sum_cell LSTM (Suc 0) 0 0 0 b) [[u], [v]] = [[u], [u + v]]" for b u v
    by (simp add: recurrent_def sum_cell_def Let_def)
  have k: "[[1 :: real], [2]] \<noteq> [] \<and> (\<forall>s. length (emit (sum_cell LSTM 1 0 0 0 False) s) = 1)
        \<and> (\<forall>s. length (emit (sum_cell LSTM 1 0 0 0 True) s) = 1)"
    by (simp add: sum_cell_def)
  from last_timestep_rev_halves [OF ne w, of 2 sum_cell 1 0 0 True True "[[1], [2]]"
      "sum_cell LSTM 1 0 0 0 False" 1 "sum_cell LSTM 1 0 0 0 True"] k
  show ?thesis by (simp add: r)
qed

section \<open>The network\<close>

lemma length_Dense [simp]: "length (Dense k act w x) = k"
  by (simp add: Dense_def)

lemma Dense_relu_nonneg: "v \<in> set (Dense k relu w x) \<Longrightarrow> 0 \<le> v"
  by (auto simp: Dense_def relu_def)


lemma length_build_embedder [simp]:
  "length (build_embedder w n v False False e inp) = length inp"
  by (simp add: build_embedder_def Let_def)

lemma encode_pooled:
  assumes "pool p" and "0 < layers p"
  shows "encode p W =
           Inr (\<lambda>inp. pooled (if bdr p then last_timestep_rev else last_timestep)
                  (fst (rnn_stack (cells W) (bdr p) (lstm_dim p) (rdp p) (edp p) (layers p) True
                          (cudnn p))
                     (build_embedder (embedder_w W) (seq_len p) (voc_siz p) False False (emb_dim p) inp)))"
  using assms build_rnn_encoder_pool [OF assms(2)] by (simp add: encode_def)




lemma length_concat_cosine:
  "length (concat (map (\<lambda>(x, y). cosine_similarity x y) ps)) = length ps"
  by (induction ps) (auto simp: cosine_similarity_eq)


lemma similarities_in_range:
  assumes "similarities p W out_ctx out_rpl = Inr sims" and "s \<in> set sims"
  shows "- 1 \<le> s \<and> s \<le> 1"
proof -
  have one: "s \<in> set (cosine_similarity x y) \<Longrightarrow> - 1 \<le> s \<and> s \<le> 1" for x y
    using cosine_similarity_in_range [of x y] by auto
  from assms show ?thesis
    by (auto simp: similarities_def Let_def dest!: one
        split: encoder_output.splits list.splits if_splits option.splits)
qed





text \<open>
  C9. For vectors of one shape, zero vectors among them, \<open>cosine_similarity\<close> returns one
  scalar between \<open>-1\<close> and 1; against a zero vector it returns 0. Every scalar of the
  vector that enters the scoring head lies between \<open>-1\<close> and 1.
\<close>

theorem cosine_similarity_bounded:
  "(length x = length y \<longrightarrow> (\<exists>s. cosine_similarity x y = [s] \<and> - 1 \<le> s \<and> s \<le> 1))
   \<and> cosine_similarity (replicate k 0) y = [0]
   \<and> cosine_similarity x (replicate k 0) = [0]
   \<and> (similarity_vector p W inp_ctx inp_rpl = Inr sims \<longrightarrow> (\<forall>s \<in> set sims. - 1 \<le> s \<and> s \<le> 1))"
proof -
  have zl: "dot (replicate k 0) v = 0" for v :: vec
    by (induction k arbitrary: v) (case_tac v; simp)+
  have zr: "dot v (replicate k 0) = 0" for v :: vec
    by (induction k arbitrary: v) (case_tac v; simp)+
  have "similarity_vector p W inp_ctx inp_rpl = Inr sims \<longrightarrow> (\<forall>s \<in> set sims. - 1 \<le> s \<and> s \<le> 1)"
    using similarities_in_range
    by (fastforce simp: similarity_vector_def split: sum.splits)
  then show ?thesis
    using cosine_similarity_in_range [of x y] by (simp add: cosine_similarity_eq zl zr)
qed

theorem cosine_similarity_bounded_witness:
  "length [0, 0 :: real] = length [3, 4 :: real]
   \<and> cosine_similarity [0, 0] [3, 4] = [0]
   \<and> (\<exists>s. cosine_similarity [3, 4] [4, - 3] = [s] \<and> - 1 \<le> s \<and> s \<le> 1)"
  using cosine_similarity_bounded [where x = "[3, 4]" and y = "[4, - 3]"]
    cosine_similarity_bounded [where y = "[3, 4]" and k = 2]
  by (simp add: numeral_2_eq_2)

lemma dot_zero_right [simp]: "dot v (replicate k 0) = 0"
  by (induction k arbitrary: v) (case_tac v; simp)+


lemma get_qa_memnet_model_built:
  assumes "pool p" and "0 < layers p" and "dsn p \<longrightarrow> build_deep_sim_net W \<noteq> None"
  shows "get_qa_memnet_model p W =
           Inr (\<lambda>inp_ctx inp_rpl.
             case similarity_vector p W inp_ctx inp_rpl of
               Inl e \<Rightarrow> Inl e
             | Inr sims \<Rightarrow> Inr (Dense 1 sigmoid (relevance_w W) (Dense 16 relu (fc1_w W) sims)))"
  unfolding get_qa_memnet_model_def Let_def
  using assms encode_pooled [OF assms(1,2), of W] by auto

lemma collect_single [simp]: "collect [Inr v] = Inr [v]"
  by (simp add: collect_def)



lemma fold_Dense_relu:
  assumes "ls \<noteq> []"
  shows "length (fold (\<lambda>i dns1. Dense k relu (ws i) dns1) ls x) = k
         \<and> (\<forall>v \<in> set (fold (\<lambda>i dns1. Dense k relu (ws i) dns1) ls x). 0 \<le> v)"
  using assms
proof (induction ls rule: rev_induct)
  case Nil
  then show ?case by simp
next
  case (snoc i ls)
  show ?case by (auto dest: Dense_relu_nonneg)
qed

lemma Dense_zero: "Dense k act (zero_dense a k) x = replicate k (act 0)"
proof -
  have "map (\<lambda>j. act (dot x (kernel_cols (zero_dense a k) ! j) + bias_vec (zero_dense a k) ! j))
          [0..<k] = map (\<lambda>j. act 0) [0..<k]"
    by (rule map_cong) (simp_all add: zero_dense_def)
  then show ?thesis by (simp add: Dense_def map_replicate_const)
qed

text \<open>
  C7. The merge model concatenates its two inputs, applies batch normalisation, then
  dropout, then one dense layer of width \<open>dense_dim\<close> with rectified activation for each of
  the \<^verbatim>\<open>layers\<close> rounds of its loop. With at least one round its output has \<open>dense_dim\<close>
  coordinates and none of them is negative, whatever the weights, the normalisation and
  the dropout are.
\<close>

theorem dense_comb_nonnegative:
  "dense_comb W p k inp1 inp2 =
     fold (\<lambda>i dns1. Dense (dense_dim p) relu (dns1_w W i) dns1) [0..<nat k]
       (Dropout W (drp p) (BatchNormalization W (inp1 @ inp2)))
   \<and> length [0..<nat k] = nat k
   \<and> (1 \<le> k \<longrightarrow> length (dense_comb W p k inp1 inp2) = dense_dim p
                  \<and> (\<forall>v \<in> set (dense_comb W p k inp1 inp2). 0 \<le> v))"
proof -
  have eq: "dense_comb W p k inp1 inp2 =
     fold (\<lambda>i dns1. Dense (dense_dim p) relu (dns1_w W i) dns1) [0..<nat k]
       (Dropout W (drp p) (BatchNormalization W (inp1 @ inp2)))"
    by (simp add: dense_comb_def Let_def)
  have "length (dense_comb W p k inp1 inp2) = dense_dim p
        \<and> (\<forall>v \<in> set (dense_comb W p k inp1 inp2). 0 \<le> v)" if "1 \<le> k"
  proof -
    from that have "[0..<nat k] \<noteq> []" by simp
    from fold_Dense_relu [OF this] show ?thesis unfolding eq by blast
  qed
  with eq show ?thesis by simp
qed

theorem dense_comb_nonnegative_witness:
  "(1 :: int) \<le> 1
   \<and> dense_comb (small_weights 1) small_params 1 [- 1, 2, - 3, 4, - 5, 6] [0, 0, 0, 0, 0, 0]
       = [0, 0, 0, 0, 0, 0]
   \<and> list_all (\<lambda>v. 0 \<le> v)
        (dense_comb (small_weights 1) small_params 1 [- 1, 2, - 3, 4, - 5, 6] [0, 0, 0, 0, 0, 0])"
proof -
  have d: "dense_dim small_params = 6"
    by (simp add: dense_dim_def small_params_def)
  have "Dense 6 relu (zero_dense 12 6) x = replicate 6 (relu 0)" for x
    by (rule Dense_zero)
  then have v: "Dense 6 relu (zero_dense 12 6) x = [0, 0, 0, 0, 0, 0]" for x
    by (simp add: relu_def numeral_eq_Suc)
  from dense_comb_nonnegative [of "small_weights 1" small_params 1 "[- 1, 2, - 3, 4, - 5, 6]"
      "[0, 0, 0, 0, 0, 0]"]
  show ?thesis
    by (simp add: d v small_weights_def list_all_iff)
qed







section \<open>Saving and loading\<close>

lemma QAMemnet_init_attributes:
  assumes "QAMemnet_init p W0 = Inr self"
  shows "obj_model self = None \<and> nets self (model self) = Some W0 \<and> config self = p"
  using assms by (auto simp: QAMemnet_init_def split: sum.splits)

lemma save_after_init:
  assumes "QAMemnet_init p W0 = Inr self"
  shows "save self path = Inl AttributeError \<and> load self path = Inl AttributeError"
  using QAMemnet_init_attributes [OF assms] by (simp add: save_def load_def)

lemma save_load_leave_model:
  assumes "obj_model self \<noteq> Some (model self)"
  shows "(save self path = Inr self' \<longrightarrow> nets self' (model self') = nets self (model self))
         \<and> (load self path = Inr self' \<longrightarrow> nets self' (model self') = nets self (model self))"
  using assms by (auto simp: save_def load_def split: option.splits)

text \<open>
  C8 on the code. \<^verbatim>\<open>train_on_batch\<close> and \<^verbatim>\<open>predict_score_on_batch\<close> use \<^verbatim>\<open>self.model\<close>, the
  network \<^verbatim>\<open>__init__\<close> builds and compiles; \<^verbatim>\<open>save\<close> and \<^verbatim>\<open>load\<close> use \<^verbatim>\<open>self.obj_model\<close>, an
  attribute this class never assigns. On the object \<^verbatim>\<open>__init__\<close> returns, both raise
  \<^verbatim>\<open>AttributeError\<close>: nothing is written and nothing is restored.
\<close>

theorem save_load_miss_the_trained_model:
  "(case QAMemnet_init small_params (small_weights 1) of
      Inl e \<Rightarrow> False
    | Inr self \<Rightarrow>
        obj_model self = None
        \<and> nets self (model self) = Some (small_weights 1)
        \<and> save self ''weights.h5'' = Inl AttributeError
        \<and> load self ''weights.h5'' = Inl AttributeError)"
proof -
  have h: "pool small_params" "0 < layers small_params"
    "dsn small_params \<longrightarrow> build_deep_sim_net (small_weights 1) \<noteq> None"
    by (simp_all add: small_params_def)
  obtain self where self: "QAMemnet_init small_params (small_weights 1) = Inr self"
    using get_qa_memnet_model_built [OF h] by (auto simp: QAMemnet_init_def)
  with QAMemnet_init_attributes [OF self] save_after_init [OF self] show ?thesis by simp
qed

end
